theory Spec2Isabelle
  imports Main
begin

section \<open>Data model (filemanager/models.py, accounts/models.py)\<close>

text \<open>
  Rows of the relational tables are records; a table is the list of its rows.
  Foreign keys hold the primary key of the row they point to, under the
  attribute name Django gives the column (\<open>owner_id\<close> for \<open>owner\<close>). Timestamps are
  integers (an instant on the time line); a nullable column is an \<open>option\<close>.
  Only the columns read or written by the modelled views are kept, except
  \<open>ip_address\<close> of FileActivity: what that column holds is the client address
  after the conversions of Django's GenericIPAddressField, which are not part
  of this development.
\<close>

type_synonym timestamp = int

record CustomUser =
  user_pk :: nat
  email :: string
  is_verified :: bool

record UserFile =
  file_pk :: nat
  name :: string
  description :: string
  owner_id :: nat
  category_id :: "nat option"
  visibility :: string
  download_count :: nat
  updated_at :: timestamp

record FileAccess =
  access_pk :: nat
  file_id :: nat
  user_id :: nat
  permission :: string
  granted_by_id :: nat
  granted_at :: timestamp
  expires_at :: "timestamp option"

record FileActivity =
  activity_file :: nat
  activity_user :: nat
  action :: string
  activity_timestamp :: timestamp

text \<open>
  The database together with the wall clock that \<open>timezone.now()\<close> reads.
  \<open>access_seq\<close> is the auto-increment counter of the FileAccess table.
\<close>

record db =
  users :: "CustomUser list"
  files :: "UserFile list"
  accesses :: "FileAccess list"
  activities :: "FileActivity list"
  access_seq :: nat
  clock :: timestamp

text \<open>The exceptions the modelled code can raise.\<close>

datatype exn =
    DoesNotExist
  | MultipleObjectsReturned
  | Http404
  | IntegrityError
  | ValidationError

text \<open>\<open>VISIBILITY_CHOICES\<close> and \<open>PERMISSION_CHOICES\<close>, in declaration order.\<close>

definition VISIBILITY_CHOICES :: "string list" where
  "VISIBILITY_CHOICES = [''private'', ''public'', ''restricted'']"

definition PERMISSION_CHOICES :: "string list" where
  "PERMISSION_CHOICES = [''view'', ''download'', ''edit'']"

text \<open>
  \<open>Meta.unique_together = ['file', 'user']\<close> of FileAccess: no two rows of the
  table agree on both columns.
\<close>

definition unique_together :: "FileAccess list \<Rightarrow> bool" where
  "unique_together rows = distinct (map (\<lambda>a. (file_id a, user_id a)) rows)"

section \<open>Queries\<close>

text \<open>
  \<open>Model.objects.get(...)\<close>: the single row matching the lookup; raises
  \<open>DoesNotExist\<close> when there is none and \<open>MultipleObjectsReturned\<close> when
  there are several.
\<close>

definition objects_get :: "('a \<Rightarrow> bool) \<Rightarrow> 'a list \<Rightarrow> exn + 'a" where
  "objects_get P rows =
     (case filter P rows of
        [] \<Rightarrow> Inl DoesNotExist
      | [x] \<Rightarrow> Inr x
      | _ \<Rightarrow> Inl MultipleObjectsReturned)"

definition FileAccess_objects_get :: "(FileAccess \<Rightarrow> bool) \<Rightarrow> db \<Rightarrow> (exn + FileAccess) \<times> db" where
  "FileAccess_objects_get P s = (objects_get P (accesses s), s)"

definition timezone_now :: "db \<Rightarrow> timestamp \<times> db" where
  "timezone_now s = (clock s, s)"

section \<open>The access decision (filemanager/views.py, can\_access\_file)\<close>

text \<open>
  The chain of \<open>if permission_type == ...\<close> at the end of the restricted
  branch; \<open>None\<close> is the case where no arm matches and control falls through
  to the final \<open>return False\<close>.
\<close>

definition check_permission_level :: "string \<Rightarrow> FileAccess \<Rightarrow> bool option" where
  "check_permission_level permission_type access =
     (if permission_type = ''view'' then Some True
      else if permission_type = ''download'' then
        Some (permission access \<in> set [''download'', ''edit''])
      else if permission_type = ''edit'' then
        Some (permission access = ''edit'')
      else None)"

text \<open>
  \<open>access.expires_at and access.expires_at < timezone.now()\<close>: the clock is
  read only when the column is not null (\<open>and\<close> short-circuits).
\<close>

definition access_has_expired :: "FileAccess \<Rightarrow> db \<Rightarrow> bool \<times> db" where
  "access_has_expired access s =
     (case expires_at access of
        None \<Rightarrow> (False, s)
      | Some t \<Rightarrow> (case timezone_now s of (now, s') \<Rightarrow> (t < now, s')))"

definition can_access_file :: "CustomUser \<Rightarrow> UserFile \<Rightarrow> string \<Rightarrow> db \<Rightarrow> (exn + bool) \<times> db" where
  "can_access_file usr file_obj permission_type s =
     (if owner_id file_obj = user_pk usr then (Inr True, s)
      else if visibility file_obj = ''public'' then
        (Inr (permission_type \<in> set [''view'', ''download'']), s)
      else if visibility file_obj = ''private'' then (Inr False, s)
      else if visibility file_obj = ''restricted'' then
        (case FileAccess_objects_get
                (\<lambda>a. file_id a = file_pk file_obj \<and> user_id a = user_pk usr) s of
           (Inl DoesNotExist, s1) \<Rightarrow> (Inr False, s1)
         | (Inl e, s1) \<Rightarrow> (Inl e, s1)
         | (Inr access, s1) \<Rightarrow>
             (case access_has_expired access s1 of
                (True, s2) \<Rightarrow> (Inr False, s2)
              | (False, s2) \<Rightarrow>
                  (case check_permission_level permission_type access of
                     Some b \<Rightarrow> (Inr b, s2)
                   | None \<Rightarrow> (Inr False, s2))))
      else (Inr False, s))"

text \<open>
  The ordinal of a permission level in the order \<open>view < download < edit\<close>, as
  the specification words the comparison; \<open>None\<close> for any other string.
\<close>

definition spec_level :: "string \<Rightarrow> nat option" where
  "spec_level p =
     (if p = ''view'' then Some 0
      else if p = ''download'' then Some 1
      else if p = ''edit'' then Some 2
      else None)"

definition spec_level_allows :: "string \<Rightarrow> string \<Rightarrow> bool" where
  "spec_level_allows requested granted =
     (case (spec_level requested, spec_level granted) of
        (Some r, Some g) \<Rightarrow> r \<le> g
      | _ \<Rightarrow> False)"

section \<open>Requests, responses and decorators\<close>

text \<open>
  What the views read of a request: the authenticated user (\<open>None\<close> for an
  anonymous visitor), the method and the posted form fields. A response is kept up to its kind and its target or message; a
  message that interpolates a user's name is kept up to its fixed part.
\<close>

record request =
  req_user :: "CustomUser option"
  req_method :: string
  POST :: "string \<rightharpoonup> string"

datatype response =
    Redirect string
  | Render string
  | JsonResponse bool string
  | HttpResponseNotAllowed

type_synonym view_result = "(exn + response) \<times> db"

text \<open>
  \<open>@login_required\<close>: an anonymous request is redirected to the login page and
  the view body does not run.
\<close>

definition login_required :: "(CustomUser \<Rightarrow> db \<Rightarrow> view_result) \<Rightarrow> request \<Rightarrow> db \<Rightarrow> view_result" where
  "login_required view req s =
     (case req_user req of
        None \<Rightarrow> (Inr (Redirect ''settings.LOGIN_URL''), s)
      | Some usr \<Rightarrow> view usr s)"

text \<open>\<open>@require_http_methods(["POST"])\<close>.\<close>

definition require_POST :: "(db \<Rightarrow> view_result) \<Rightarrow> request \<Rightarrow> db \<Rightarrow> view_result" where
  "require_POST view req s =
     (if req_method req = ''POST'' then view s else (Inr HttpResponseNotAllowed, s))"

text \<open>
  \<open>get_object_or_404\<close>: \<open>objects.get\<close> with \<open>DoesNotExist\<close> turned into
  \<open>Http404\<close>; any other exception passes through.
\<close>

definition get_object_or_404 :: "('a \<Rightarrow> bool) \<Rightarrow> 'a list \<Rightarrow> exn + 'a" where
  "get_object_or_404 P rows =
     (case objects_get P rows of
        Inl DoesNotExist \<Rightarrow> Inl Http404
      | Inl e \<Rightarrow> Inl e
      | Inr x \<Rightarrow> Inr x)"

text \<open>
  \<open>FileActivity.objects.create(...)\<close>: a new row, stamped by \<open>auto_now_add\<close>.
  The \<open>ip_address\<close> argument (the result of \<open>get_client_ip\<close>) goes to the
  column that is left out.
\<close>

definition FileActivity_objects_create :: "nat \<Rightarrow> nat \<Rightarrow> string \<Rightarrow> db \<Rightarrow> db" where
  "FileActivity_objects_create fid uid act s =
     s\<lparr>activities := activities s @
        [\<lparr>activity_file = fid, activity_user = uid, action = act,
          activity_timestamp = clock s\<rparr>]\<rparr>"

section \<open>Editing a file (filemanager/views.py, edit\_file)\<close>

text \<open>
  The cleaned data of a valid \<open>FileEditForm\<close>: the four fields the form
  declares. Django's form validation is framework code; the view takes it as
  the parameter \<open>clean\<close>, which yields \<open>None\<close> where \<open>is_valid()\<close> is false.
\<close>

record FileEditForm =
  form_name :: string
  form_description :: string
  form_category :: "nat option"
  form_visibility :: string

text \<open>
  \<open>form.save()\<close>: the instance takes the cleaned fields and is written back
  by primary key; \<open>auto_now\<close> stamps \<open>updated_at\<close>.
\<close>

definition FileEditForm_save :: "FileEditForm \<Rightarrow> UserFile \<Rightarrow> db \<Rightarrow> db" where
  "FileEditForm_save form file_obj s =
     (let saved = file_obj\<lparr>name := form_name form, description := form_description form,
                    category_id := form_category form, visibility := form_visibility form,
                    updated_at := clock s\<rparr>
      in s\<lparr>files := map (\<lambda>r. if file_pk r = file_pk file_obj then saved else r) (files s)\<rparr>)"

definition edit_file ::
  "((string \<rightharpoonup> string) \<Rightarrow> db \<Rightarrow> FileEditForm option) \<Rightarrow> request \<Rightarrow> nat \<Rightarrow> db \<Rightarrow> view_result" where
  "edit_file clean req fid =
     login_required (\<lambda>usr s.
       case get_object_or_404 (\<lambda>f. file_pk f = fid \<and> owner_id f = user_pk usr) (files s) of
         Inl e \<Rightarrow> (Inl e, s)
       | Inr file_obj \<Rightarrow>
           if req_method req = ''POST'' then
             (case clean (POST req) s of
                Some form \<Rightarrow>
                  (Inr (Redirect ''filemanager:view_file''),
                   FileActivity_objects_create (file_pk file_obj) (user_pk usr) ''update''
                     (FileEditForm_save form file_obj s))
              | None \<Rightarrow> (Inr (Render ''filemanager/edit_file.html''), s))
           else (Inr (Render ''filemanager/edit_file.html''), s)) req"

section \<open>Sharing a file (filemanager/views.py, share\_file and remove\_access)\<close>

text \<open>
  The posted \<open>expires_at\<close> is a string; the DateTimeField converts it when the
  row is written and raises \<open>ValidationError\<close> on a string it cannot read.
  The conversion itself is Django's and is the parameter \<open>parse\<close>.
\<close>

definition DateTimeField_to_python ::
  "(string \<Rightarrow> timestamp option) \<Rightarrow> string option \<Rightarrow> exn + timestamp option" where
  "DateTimeField_to_python parse v =
     (case v of
        None \<Rightarrow> Inr None
      | Some str \<Rightarrow> (case parse str of None \<Rightarrow> Inl ValidationError | Some t \<Rightarrow> Inr (Some t)))"

text \<open>
  \<open>FileAccess.objects.create(...)\<close>: the insert is refused with
  \<open>IntegrityError\<close> where it would break \<open>unique_together\<close>; otherwise the row
  gets the next primary key and \<open>granted_at\<close> from \<open>auto_now_add\<close>.
\<close>

definition FileAccess_objects_create ::
  "(string \<Rightarrow> timestamp option) \<Rightarrow> nat \<Rightarrow> nat \<Rightarrow> string \<Rightarrow> nat \<Rightarrow> string option \<Rightarrow> db
     \<Rightarrow> (exn + FileAccess) \<times> db" where
  "FileAccess_objects_create parse fid uid perm granter expires s =
     (case DateTimeField_to_python parse expires of
        Inl e \<Rightarrow> (Inl e, s)
      | Inr t \<Rightarrow>
          if \<exists>r \<in> set (accesses s). file_id r = fid \<and> user_id r = uid
          then (Inl IntegrityError, s)
          else
            (let row = \<lparr>access_pk = Suc (access_seq s), file_id = fid, user_id = uid,
                         permission = perm, granted_by_id = granter, granted_at = clock s,
                         expires_at = t\<rparr>
             in (Inr row, s\<lparr>accesses := accesses s @ [row], access_seq := Suc (access_seq s)\<rparr>)))"

text \<open>
  \<open>get_or_create\<close>: the row if the lookup finds it, else a new one built from
  the lookup and the defaults. An \<open>IntegrityError\<close> of the insert is answered
  by a second lookup and raised again if that finds nothing.
\<close>

definition FileAccess_objects_get_or_create ::
  "(string \<Rightarrow> timestamp option) \<Rightarrow> nat \<Rightarrow> nat \<Rightarrow> string \<Rightarrow> nat \<Rightarrow> string option \<Rightarrow> db
     \<Rightarrow> (exn + FileAccess \<times> bool) \<times> db" where
  "FileAccess_objects_get_or_create parse fid uid perm granter expires s =
     (case objects_get (\<lambda>a. file_id a = fid \<and> user_id a = uid) (accesses s) of
        Inr a \<Rightarrow> (Inr (a, False), s)
      | Inl DoesNotExist \<Rightarrow>
          (case FileAccess_objects_create parse fid uid perm granter expires s of
             (Inr a, s') \<Rightarrow> (Inr (a, True), s')
           | (Inl IntegrityError, s') \<Rightarrow>
               (case objects_get (\<lambda>a. file_id a = fid \<and> user_id a = uid) (accesses s') of
                  Inr a \<Rightarrow> (Inr (a, False), s')
                | Inl _ \<Rightarrow> (Inl IntegrityError, s'))
           | (Inl e, s') \<Rightarrow> (Inl e, s'))
      | Inl e \<Rightarrow> (Inl e, s))"

text \<open>
  \<open>access.save()\<close> on a row that was read from the table: an update by primary
  key of the two attributes the view has assigned.
\<close>

definition FileAccess_save ::
  "(string \<Rightarrow> timestamp option) \<Rightarrow> FileAccess \<Rightarrow> string \<Rightarrow> string option \<Rightarrow> db \<Rightarrow> (exn + unit) \<times> db" where
  "FileAccess_save parse access perm expires s =
     (case DateTimeField_to_python parse expires of
        Inl e \<Rightarrow> (Inl e, s)
      | Inr t \<Rightarrow>
          (Inr (),
           s\<lparr>accesses := map (\<lambda>r. if access_pk r = access_pk access
                                  then access\<lparr>permission := perm, expires_at := t\<rparr> else r)
                              (accesses s)\<rparr>))"

text \<open>\<open>expires_at if expires_at else None\<close>: a missing or empty field is null.\<close>

definition posted_expires_at :: "request \<Rightarrow> string option" where
  "posted_expires_at req =
     (case POST req ''expires_at'' of
        None \<Rightarrow> None
      | Some str \<Rightarrow> if str \<noteq> [] then Some str else None)"

text \<open>
  \<open>request.POST.get('permission', 'view')\<close>. The view stores the posted string
  as it is, without comparing it with \<open>PERMISSION_CHOICES\<close>.
\<close>

definition posted_permission :: "request \<Rightarrow> string" where
  "posted_permission req = (case POST req ''permission'' of None \<Rightarrow> ''view'' | Some p \<Rightarrow> p)"

definition share_file ::
  "(string \<Rightarrow> timestamp option) \<Rightarrow> request \<Rightarrow> nat \<Rightarrow> db \<Rightarrow> view_result" where
  "share_file parse req fid =
     login_required (\<lambda>usr s.
       case get_object_or_404 (\<lambda>f. file_pk f = fid \<and> owner_id f = user_pk usr) (files s) of
         Inl e \<Rightarrow> (Inl e, s)
       | Inr file_obj \<Rightarrow>
           if visibility file_obj \<noteq> ''restricted'' then
             (Inr (JsonResponse False ''Only restricted files can be shared with specific users.''), s)
           else if req_method req = ''POST'' then
             (case objects_get (\<lambda>x. POST req ''user_email'' = Some (email x) \<and> is_verified x)
                     (users s) of
                Inl DoesNotExist \<Rightarrow> (Inr (JsonResponse False ''User not found or not verified.''), s)
              | Inl e \<Rightarrow> (Inl e, s)
              | Inr target_user \<Rightarrow>
                  (case FileAccess_objects_get_or_create parse (file_pk file_obj)
                          (user_pk target_user) (posted_permission req) (user_pk usr)
                          (posted_expires_at req) s of
                     (Inl e, s1) \<Rightarrow> (Inl e, s1)
                   | (Inr (access, created), s1) \<Rightarrow>
                       (case (if \<not> created
                              then FileAccess_save parse access (posted_permission req)
                                     (posted_expires_at req) s1
                              else (Inr (), s1)) of
                          (Inl e, s2) \<Rightarrow> (Inl e, s2)
                        | (Inr _, s2) \<Rightarrow>
                            (Inr (JsonResponse True ''File shared''),
                             FileActivity_objects_create (file_pk file_obj) (user_pk usr) ''share'' s2))))
           else (Inr (JsonResponse False ''Invalid request method.''), s)) req"

text \<open>
  \<open>remove_access\<close>: the grant is looked up by its primary key among the grants
  on files the requester owns (\<open>file__owner=request.user\<close>) and deleted.
\<close>

definition remove_access :: "request \<Rightarrow> nat \<Rightarrow> db \<Rightarrow> view_result" where
  "remove_access req aid =
     login_required (\<lambda>usr. require_POST (\<lambda>s.
       case get_object_or_404
              (\<lambda>a. access_pk a = aid \<and>
                    (\<exists>f \<in> set (files s). file_pk f = file_id a \<and> owner_id f = user_pk usr))
              (accesses s) of
         Inl e \<Rightarrow> (Inl e, s)
       | Inr access \<Rightarrow>
           (Inr (JsonResponse True ''Access removed''),
            s\<lparr>accesses := filter (\<lambda>r. access_pk r \<noteq> access_pk access) (accesses s)\<rparr>)) req) req"

text \<open>
  The integrity constraints of the FileAccess table: primary keys are
  distinct and were handed out by the auto-increment counter, and
  \<open>unique_together\<close> holds.
\<close>

definition FileAccess_table_ok :: "db \<Rightarrow> bool" where
  "FileAccess_table_ok s \<longleftrightarrow>
     distinct (map access_pk (accesses s)) \<and>
     (\<forall>r \<in> set (accesses s). access_pk r \<le> access_seq s) \<and>
     unique_together (accesses s)"

section \<open>Example data\<close>

definition alice :: CustomUser where
  "alice = \<lparr>user_pk = 1, email = ''alice@example.org'', is_verified = True\<rparr>"

definition bob :: CustomUser where
  "bob = \<lparr>user_pk = 2, email = ''bob@example.org'', is_verified = True\<rparr>"

definition report :: "string \<Rightarrow> UserFile" where
  "report v = \<lparr>file_pk = 7, name = ''report'', description = '''', owner_id = 1,
     category_id = None, visibility = v, download_count = 0, updated_at = 0\<rparr>"

definition grant_to_bob :: "string \<Rightarrow> timestamp option \<Rightarrow> FileAccess" where
  "grant_to_bob lvl e = \<lparr>access_pk = 1, file_id = 7, user_id = 2, permission = lvl,
     granted_by_id = 1, granted_at = 50, expires_at = e\<rparr>"

definition example_db :: "string \<Rightarrow> FileAccess list \<Rightarrow> timestamp \<Rightarrow> db" where
  "example_db v rows t = \<lparr>users = [alice, bob], files = [report v], accesses = rows,
     activities = [], access_seq = 1, clock = t\<rparr>"

definition example_parse :: "string \<Rightarrow> timestamp option" where
  "example_parse str = (if str = ''2030-01-01T00:00'' then Some 2030 else None)"

definition share_request :: request where
  "share_request = \<lparr>req_user = Some alice, req_method = ''POST'',
     POST = [''user_email'' \<mapsto> ''bob@example.org'', ''permission'' \<mapsto> ''edit'',
             ''expires_at'' \<mapsto> ''2030-01-01T00:00'']\<rparr>"

definition edit_request :: "CustomUser \<Rightarrow> request" where
  "edit_request usr = \<lparr>req_user = Some usr, req_method = ''POST'',
     POST = [''name'' \<mapsto> ''renamed'', ''visibility'' \<mapsto> ''public'']\<rparr>"

definition example_clean :: "(string \<rightharpoonup> string) \<Rightarrow> db \<Rightarrow> FileEditForm option" where
  "example_clean post s =
     (case (post ''name'', post ''visibility'') of
        (Some n, Some v) \<Rightarrow>
          if n \<noteq> [] \<and> v \<in> set VISIBILITY_CHOICES
          then Some \<lparr>form_name = n, form_description = [], form_category = None, form_visibility = v\<rparr>
          else None
      | _ \<Rightarrow> None)"

section \<open>Lemmas about the queries\<close>

lemma filter_key_unique:
  "distinct (map k rows) \<Longrightarrow> a \<in> set rows \<Longrightarrow> filter (\<lambda>x. k x = k a) rows = [a]"
proof (induction rows)
  case Nil
  then show ?case by simp
next
  case (Cons r rows)
  show ?case
  proof (cases "r = a")
    case True
    from Cons.prems(1) have "k a \<notin> k ` set rows" using True by simp
    then have "\<forall>x \<in> set rows. k x \<noteq> k a"
      by (metis imageI)
    then have "filter (\<lambda>x. k x = k a) rows = []"
      by (simp add: filter_empty_conv)
    with True show ?thesis by simp
  next
    case False
    with Cons.prems have in_rows: "a \<in> set rows" by simp
    from Cons.prems(1) have "k r \<notin> k ` set rows" by simp
    with in_rows have "k r \<noteq> k a" by force
    moreover from Cons.prems(1) have "distinct (map k rows)" by simp
    ultimately show ?thesis using Cons.IH in_rows by simp
  qed
qed

lemma objects_get_unique:
  assumes "unique_together rows" and "a \<in> set rows"
    and "file_id a = fid" and "user_id a = uid"
  shows "objects_get (\<lambda>x. file_id x = fid \<and> user_id x = uid) rows = Inr a"
proof -
  have eq: "(\<lambda>x. file_id x = fid \<and> user_id x = uid) = (\<lambda>x. (file_id x, user_id x) = (file_id a, user_id a))"
    using assms(3,4) by auto
  from assms(1,2) have "filter (\<lambda>x. (file_id x, user_id x) = (file_id a, user_id a)) rows = [a]"
    unfolding unique_together_def by (rule filter_key_unique)
  then show ?thesis unfolding objects_get_def eq by simp
qed

lemma objects_get_none:
  "(\<forall>x \<in> set rows. \<not> P x) \<Longrightarrow> objects_get P rows = Inl DoesNotExist"
  by (simp add: objects_get_def filter_empty_conv[THEN iffD2])

lemma objects_get_unique_total:
  assumes "unique_together rows"
  shows "objects_get (\<lambda>x. file_id x = fid \<and> user_id x = uid) rows = Inl DoesNotExist
       \<or> (\<exists>a. objects_get (\<lambda>x. file_id x = fid \<and> user_id x = uid) rows = Inr a)"
proof (cases "\<exists>a \<in> set rows. file_id a = fid \<and> user_id a = uid")
  case True
  then obtain a where "a \<in> set rows" "file_id a = fid" "user_id a = uid" by blast
  with assms show ?thesis by (blast intro: objects_get_unique)
next
  case False
  then have "objects_get (\<lambda>x. file_id x = fid \<and> user_id x = uid) rows = Inl DoesNotExist"
    by (intro objects_get_none) blast
  then show ?thesis by simp
qed

text \<open>
  The restricted branch, once the lookup has found its row: the decision for
  a non-owner on a restricted file.
\<close>

lemma restricted_decision:
  assumes "owner_id f \<noteq> user_pk u" and "visibility f = ''restricted''"
    and "objects_get (\<lambda>x. file_id x = file_pk f \<and> user_id x = user_pk u) (accesses s) = Inr a"
  shows "can_access_file u f p s =
     (if (\<exists>t. expires_at a = Some t \<and> t < clock s) then Inr False
      else case check_permission_level p a of Some b \<Rightarrow> Inr b | None \<Rightarrow> Inr False, s)"
  using assms
  by (auto simp: can_access_file_def FileAccess_objects_get_def access_has_expired_def
      timezone_now_def split: option.splits)

lemma restricted_no_grant:
  assumes "owner_id f \<noteq> user_pk u" and "visibility f = ''restricted''"
    and "\<forall>x \<in> set (accesses s). \<not> (file_id x = file_pk f \<and> user_id x = user_pk u)"
  shows "can_access_file u f p s = (Inr False, s)"
proof -
  from assms(3)
  have "objects_get (\<lambda>x. file_id x = file_pk f \<and> user_id x = user_pk u) (accesses s) = Inl DoesNotExist"
    by (rule objects_get_none)
  with assms(1,2) show ?thesis
    by (simp add: can_access_file_def FileAccess_objects_get_def)
qed

lemma restricted_grant_found:
  assumes "owner_id f \<noteq> user_pk u" and "visibility f = ''restricted''"
    and "unique_together (accesses s)" and "a \<in> set (accesses s)"
    and "file_id a = file_pk f" and "user_id a = user_pk u"
  shows "can_access_file u f p s =
     (if (\<exists>t. expires_at a = Some t \<and> t < clock s) then Inr False
      else case check_permission_level p a of Some b \<Rightarrow> Inr b | None \<Rightarrow> Inr False, s)"
  using restricted_decision [OF assms(1,2) objects_get_unique [OF assms(3,4,5,6)]] .

lemma can_access_file_state: "snd (can_access_file u f p s) = s"
  by (simp add: can_access_file_def FileAccess_objects_get_def access_has_expired_def
      timezone_now_def split: sum.splits exn.splits option.splits bool.splits prod.splits)

lemma can_access_file_reads:
  assumes "accesses s = accesses s'" and "clock s = clock s'"
    and "user_pk u = user_pk u'"
    and "file_pk f = file_pk f'" and "owner_id f = owner_id f'" and "visibility f = visibility f'"
  shows "fst (can_access_file u f p s) = fst (can_access_file u' f' p s')"
  using assms
  by (simp add: can_access_file_def FileAccess_objects_get_def access_has_expired_def
      timezone_now_def split: sum.splits exn.splits option.splits bool.splits prod.splits)

section \<open>The claims about the access decision\<close>

text \<open>
  C1. The claim reads: a grant whose \<open>expires_at\<close> equals \<open>now()\<close> is expired and
  every operation is denied. The code tests \<open>expires_at < now()\<close>, so such a grant
  is still active. What holds instead: for a non-owner on a restricted file whose
  grant expires exactly now, view is allowed, download is allowed iff the level
  is download or edit, and edit is allowed iff the level is edit.
\<close>

theorem expiry_equal_to_now_is_active:
  assumes "owner_id f \<noteq> user_pk u" and "visibility f = ''restricted''"
    and "unique_together (accesses s)" and "a \<in> set (accesses s)"
    and "file_id a = file_pk f" and "user_id a = user_pk u"
    and "expires_at a = Some (clock s)"
  shows "fst (can_access_file u f ''view'' s) = Inr True
       \<and> fst (can_access_file u f ''download'' s) = Inr (permission a = ''download'' \<or> permission a = ''edit'')
       \<and> fst (can_access_file u f ''edit'' s) = Inr (permission a = ''edit'')"
  using assms(7)
  by (simp add: restricted_grant_found [OF assms(1-6)] check_permission_level_def)

theorem expiry_equal_to_now_is_active_witness:
  "owner_id (report ''restricted'') \<noteq> user_pk bob
   \<and> visibility (report ''restricted'') = ''restricted''
   \<and> unique_together (accesses (example_db ''restricted'' [grant_to_bob ''download'' (Some 100)] 100))
   \<and> grant_to_bob ''download'' (Some 100) \<in> set (accesses (example_db ''restricted'' [grant_to_bob ''download'' (Some 100)] 100))
   \<and> file_id (grant_to_bob ''download'' (Some 100)) = file_pk (report ''restricted'')
   \<and> user_id (grant_to_bob ''download'' (Some 100)) = user_pk bob
   \<and> expires_at (grant_to_bob ''download'' (Some 100)) = Some (clock (example_db ''restricted'' [grant_to_bob ''download'' (Some 100)] 100))
   \<and> fst (can_access_file bob (report ''restricted'') ''view'' (example_db ''restricted'' [grant_to_bob ''download'' (Some 100)] 100)) = Inr True
   \<and> fst (can_access_file bob (report ''restricted'') ''download'' (example_db ''restricted'' [grant_to_bob ''download'' (Some 100)] 100)) = Inr True
   \<and> fst (can_access_file bob (report ''restricted'') ''edit'' (example_db ''restricted'' [grant_to_bob ''download'' (Some 100)] 100)) = Inr False"
  using expiry_equal_to_now_is_active [of "report ''restricted''" bob
      "example_db ''restricted'' [grant_to_bob ''download'' (Some 100)] 100" "grant_to_bob ''download'' (Some 100)"]
  by (simp add: report_def bob_def example_db_def grant_to_bob_def unique_together_def)

text \<open>
  The claim C1 as worded fails on this store: bob holds an edit grant on alice's
  restricted file that expires at 100, the clock reads 100, and bob may view and edit.
\<close>

theorem expiry_equal_to_now_counterexample:
  "owner_id (report ''restricted'') \<noteq> user_pk bob
   \<and> visibility (report ''restricted'') = ''restricted''
   \<and> accesses (example_db ''restricted'' [grant_to_bob ''edit'' (Some 100)] 100) = [grant_to_bob ''edit'' (Some 100)]
   \<and> file_id (grant_to_bob ''edit'' (Some 100)) = file_pk (report ''restricted'')
   \<and> user_id (grant_to_bob ''edit'' (Some 100)) = user_pk bob
   \<and> expires_at (grant_to_bob ''edit'' (Some 100)) = Some (clock (example_db ''restricted'' [grant_to_bob ''edit'' (Some 100)] 100))
   \<and> fst (can_access_file bob (report ''restricted'') ''view''
            (example_db ''restricted'' [grant_to_bob ''edit'' (Some 100)] 100)) \<noteq> Inr False
   \<and> fst (can_access_file bob (report ''restricted'') ''edit''
            (example_db ''restricted'' [grant_to_bob ''edit'' (Some 100)] 100)) = Inr True"
  by (simp add: can_access_file_def FileAccess_objects_get_def objects_get_def
      access_has_expired_def timezone_now_def check_permission_level_def
      report_def bob_def example_db_def grant_to_bob_def)

text \<open>
  C2. The owner of a file is allowed every operation, whatever the visibility
  and whatever the grant table holds; the state is not touched. Nothing but
  the owner test is consulted: the result does not depend on \<open>p\<close>, on the
  visibility or on \<open>s\<close>.
\<close>

theorem owner_always_allowed:
  assumes "owner_id f = user_pk u"
  shows "can_access_file u f p s = (Inr True, s)"
  using assms by (simp add: can_access_file_def)

theorem owner_always_allowed_witness:
  "owner_id (report ''private'') = user_pk alice \<and>
   can_access_file alice (report ''private'') ''edit''
     (example_db ''private'' [grant_to_bob ''view'' (Some 10), grant_to_bob ''view'' None] 100)
   = (Inr True, example_db ''private'' [grant_to_bob ''view'' (Some 10), grant_to_bob ''view'' None] 100)"
  using owner_always_allowed [of "report ''private''" alice "''edit''"
      "example_db ''private'' [grant_to_bob ''view'' (Some 10), grant_to_bob ''view'' None] 100"]
  by (simp add: report_def alice_def)

text \<open>
  C3. On a public file a non-owner may view and download and may not edit,
  whatever the grant table holds.
\<close>

theorem public_view_download_only:
  assumes "visibility f = ''public''" and "owner_id f \<noteq> user_pk u"
  shows "fst (can_access_file u f ''view'' s) = Inr True
       \<and> fst (can_access_file u f ''download'' s) = Inr True
       \<and> fst (can_access_file u f ''edit'' s) = Inr False"
  using assms by (simp add: can_access_file_def)

theorem public_view_download_only_witness:
  "visibility (report ''public'') = ''public'' \<and> owner_id (report ''public'') \<noteq> user_pk bob
   \<and> fst (can_access_file bob (report ''public'') ''view'' (example_db ''public'' [grant_to_bob ''edit'' None] 100)) = Inr True
   \<and> fst (can_access_file bob (report ''public'') ''download'' (example_db ''public'' [grant_to_bob ''edit'' None] 100)) = Inr True
   \<and> fst (can_access_file bob (report ''public'') ''edit'' (example_db ''public'' [grant_to_bob ''edit'' None] 100)) = Inr False"
  using public_view_download_only [of "report ''public''" bob "example_db ''public'' [grant_to_bob ''edit'' None] 100"]
  by (simp add: report_def bob_def)

text \<open>
  C4. On a private file a non-owner is denied every operation, whatever the
  grant table holds: a grant row for the pair is not honoured.
\<close>

theorem private_denies_non_owner:
  assumes "visibility f = ''private''" and "owner_id f \<noteq> user_pk u"
  shows "can_access_file u f p s = (Inr False, s)"
  using assms by (simp add: can_access_file_def)

theorem private_denies_non_owner_witness:
  "visibility (report ''private'') = ''private'' \<and> owner_id (report ''private'') \<noteq> user_pk bob
   \<and> grant_to_bob ''edit'' None \<in> set (accesses (example_db ''private'' [grant_to_bob ''edit'' None] 100))
   \<and> file_id (grant_to_bob ''edit'' None) = file_pk (report ''private'')
   \<and> user_id (grant_to_bob ''edit'' None) = user_pk bob
   \<and> fst (can_access_file bob (report ''private'') ''view'' (example_db ''private'' [grant_to_bob ''edit'' None] 100)) = Inr False
   \<and> fst (can_access_file bob (report ''private'') ''download'' (example_db ''private'' [grant_to_bob ''edit'' None] 100)) = Inr False
   \<and> fst (can_access_file bob (report ''private'') ''edit'' (example_db ''private'' [grant_to_bob ''edit'' None] 100)) = Inr False"
  using private_denies_non_owner [of "report ''private''" bob _ "example_db ''private'' [grant_to_bob ''edit'' None] 100"]
  by (simp add: report_def bob_def example_db_def grant_to_bob_def)

text \<open>
  C5. For a non-owner on a restricted file with a grant that has not expired:
  view is allowed at any level, download iff the level is download or edit,
  edit iff the level is edit; on the three declared levels this is the
  comparison \<open>requested \<le> granted\<close> in the order view, download, edit.
\<close>

theorem restricted_follows_level_order:
  assumes "owner_id f \<noteq> user_pk u" and "visibility f = ''restricted''"
    and "unique_together (accesses s)" and "a \<in> set (accesses s)"
    and "file_id a = file_pk f" and "user_id a = user_pk u"
    and "\<not> (\<exists>t. expires_at a = Some t \<and> t < clock s)"
  shows "fst (can_access_file u f ''view'' s) = Inr True
       \<and> fst (can_access_file u f ''download'' s) = Inr (permission a = ''download'' \<or> permission a = ''edit'')
       \<and> fst (can_access_file u f ''edit'' s) = Inr (permission a = ''edit'')
       \<and> (p \<in> set PERMISSION_CHOICES \<and> permission a \<in> set PERMISSION_CHOICES \<longrightarrow>
            fst (can_access_file u f p s) = Inr (spec_level_allows p (permission a)))"
  using assms(7)
  by (auto simp add: restricted_grant_found [OF assms(1-6)] check_permission_level_def
      PERMISSION_CHOICES_def spec_level_allows_def spec_level_def)

theorem restricted_follows_level_order_witness:
  "owner_id (report ''restricted'') \<noteq> user_pk bob
   \<and> visibility (report ''restricted'') = ''restricted''
   \<and> unique_together (accesses (example_db ''restricted'' [grant_to_bob ''download'' None] 100))
   \<and> grant_to_bob ''download'' None \<in> set (accesses (example_db ''restricted'' [grant_to_bob ''download'' None] 100))
   \<and> file_id (grant_to_bob ''download'' None) = file_pk (report ''restricted'')
   \<and> user_id (grant_to_bob ''download'' None) = user_pk bob
   \<and> \<not> (\<exists>t. expires_at (grant_to_bob ''download'' None) = Some t
             \<and> t < clock (example_db ''restricted'' [grant_to_bob ''download'' None] 100))
   \<and> ''edit'' \<in> set PERMISSION_CHOICES \<and> permission (grant_to_bob ''download'' None) \<in> set PERMISSION_CHOICES
   \<and> fst (can_access_file bob (report ''restricted'') ''view'' (example_db ''restricted'' [grant_to_bob ''download'' None] 100)) = Inr True
   \<and> fst (can_access_file bob (report ''restricted'') ''download'' (example_db ''restricted'' [grant_to_bob ''download'' None] 100)) = Inr True
   \<and> fst (can_access_file bob (report ''restricted'') ''edit'' (example_db ''restricted'' [grant_to_bob ''download'' None] 100)) = Inr False
   \<and> \<not> spec_level_allows ''edit'' (permission (grant_to_bob ''download'' None))"
  using restricted_follows_level_order [of "report ''restricted''" bob
      "example_db ''restricted'' [grant_to_bob ''download'' None] 100" "grant_to_bob ''download'' None" "''edit''"]
  by (simp add: report_def bob_def example_db_def grant_to_bob_def unique_together_def
      PERMISSION_CHOICES_def spec_level_allows_def spec_level_def)

text \<open>
  C6. For a non-owner on a restricted file, every operation is denied when the
  table has no grant for the pair, and likewise when the grant of the pair has
  an \<open>expires_at\<close> strictly before the clock.
\<close>

theorem restricted_absent_or_expired_denied:
  assumes "owner_id f \<noteq> user_pk u" and "visibility f = ''restricted''"
    and "(\<forall>x \<in> set (accesses s). \<not> (file_id x = file_pk f \<and> user_id x = user_pk u))
       \<or> (unique_together (accesses s) \<and>
          (\<exists>a \<in> set (accesses s). file_id a = file_pk f \<and> user_id a = user_pk u \<and>
             (\<exists>t. expires_at a = Some t \<and> t < clock s)))"
  shows "can_access_file u f p s = (Inr False, s)"
  using assms(3)
proof
  assume "\<forall>x \<in> set (accesses s). \<not> (file_id x = file_pk f \<and> user_id x = user_pk u)"
  with assms(1,2) show ?thesis by (rule restricted_no_grant)
next
  assume "unique_together (accesses s) \<and>
          (\<exists>a \<in> set (accesses s). file_id a = file_pk f \<and> user_id a = user_pk u \<and>
             (\<exists>t. expires_at a = Some t \<and> t < clock s))"
  then obtain a t where u: "unique_together (accesses s)" and a: "a \<in> set (accesses s)"
    and k: "file_id a = file_pk f" "user_id a = user_pk u"
    and e: "expires_at a = Some t" "t < clock s"
    by blast
  from e show ?thesis
    by (simp add: restricted_grant_found [OF assms(1,2) u a k])
qed

theorem restricted_absent_or_expired_denied_witness:
  "owner_id (report ''restricted'') \<noteq> user_pk bob
   \<and> visibility (report ''restricted'') = ''restricted''
   \<and> \<not> (\<exists>x \<in> set (accesses (example_db ''restricted'' [] 100)).
           file_id x = file_pk (report ''restricted'') \<and> user_id x = user_pk bob)
   \<and> can_access_file bob (report ''restricted'') ''view'' (example_db ''restricted'' [] 100)
       = (Inr False, example_db ''restricted'' [] 100)
   \<and> unique_together (accesses (example_db ''restricted'' [grant_to_bob ''edit'' (Some 99)] 100))
   \<and> (\<exists>a \<in> set (accesses (example_db ''restricted'' [grant_to_bob ''edit'' (Some 99)] 100)).
         file_id a = file_pk (report ''restricted'') \<and> user_id a = user_pk bob \<and>
         (\<exists>t. expires_at a = Some t \<and> t < clock (example_db ''restricted'' [grant_to_bob ''edit'' (Some 99)] 100)))
   \<and> can_access_file bob (report ''restricted'') ''edit'' (example_db ''restricted'' [grant_to_bob ''edit'' (Some 99)] 100)
       = (Inr False, example_db ''restricted'' [grant_to_bob ''edit'' (Some 99)] 100)"
  using restricted_absent_or_expired_denied [of "report ''restricted''" bob "example_db ''restricted'' [] 100" "''view''"]
    restricted_absent_or_expired_denied [of "report ''restricted''" bob
      "example_db ''restricted'' [grant_to_bob ''edit'' (Some 99)] 100" "''edit''"]
  by (simp add: report_def bob_def example_db_def grant_to_bob_def unique_together_def)

text \<open>
  C7. With the grant table under its uniqueness constraint, the decision
  always returns a boolean and never an exception. For a non-owner, a
  visibility outside the three declared values, a restricted file without a
  grant for the pair, and a restricted file whose grant has expired all give
  Deny.
\<close>

theorem can_access_file_never_raises:
  assumes "unique_together (accesses s)"
  shows "(\<exists>b. fst (can_access_file u f p s) = Inr b)
       \<and> (owner_id f \<noteq> user_pk u \<and> visibility f \<notin> set VISIBILITY_CHOICES
            \<longrightarrow> fst (can_access_file u f p s) = Inr False)
       \<and> (owner_id f \<noteq> user_pk u \<and> visibility f = ''restricted''
            \<and> (\<forall>x \<in> set (accesses s). \<not> (file_id x = file_pk f \<and> user_id x = user_pk u))
            \<longrightarrow> fst (can_access_file u f p s) = Inr False)
       \<and> (owner_id f \<noteq> user_pk u \<and> visibility f = ''restricted''
            \<and> (\<exists>a \<in> set (accesses s). file_id a = file_pk f \<and> user_id a = user_pk u
                  \<and> (\<exists>t. expires_at a = Some t \<and> t < clock s))
            \<longrightarrow> fst (can_access_file u f p s) = Inr False)"
proof (intro conjI impI)
  from objects_get_unique_total [OF assms, of "file_pk f" "user_pk u"]
  show "\<exists>b. fst (can_access_file u f p s) = Inr b"
    by (auto simp: can_access_file_def FileAccess_objects_get_def access_has_expired_def
        timezone_now_def split: option.splits bool.splits)
next
  assume "owner_id f \<noteq> user_pk u \<and> visibility f \<notin> set VISIBILITY_CHOICES"
  then show "fst (can_access_file u f p s) = Inr False"
    by (simp add: can_access_file_def VISIBILITY_CHOICES_def)
next
  assume "owner_id f \<noteq> user_pk u \<and> visibility f = ''restricted''
            \<and> (\<forall>x \<in> set (accesses s). \<not> (file_id x = file_pk f \<and> user_id x = user_pk u))"
  then show "fst (can_access_file u f p s) = Inr False"
    by (simp add: restricted_no_grant)
next
  assume "owner_id f \<noteq> user_pk u \<and> visibility f = ''restricted''
            \<and> (\<exists>a \<in> set (accesses s). file_id a = file_pk f \<and> user_id a = user_pk u
                  \<and> (\<exists>t. expires_at a = Some t \<and> t < clock s))"
  then obtain a t where n: "owner_id f \<noteq> user_pk u" "visibility f = ''restricted''"
    and a: "a \<in> set (accesses s)" and k: "file_id a = file_pk f" "user_id a = user_pk u"
    and e: "expires_at a = Some t" "t < clock s"
    by blast
  from e show "fst (can_access_file u f p s) = Inr False"
    by (simp add: restricted_grant_found [OF n assms a k])
qed

theorem can_access_file_never_raises_witness:
  "unique_together (accesses (example_db ''archived'' [grant_to_bob ''edit'' None] 100))
   \<and> owner_id (report ''archived'') \<noteq> user_pk bob
   \<and> visibility (report ''archived'') \<notin> set VISIBILITY_CHOICES
   \<and> fst (can_access_file bob (report ''archived'') ''view''
            (example_db ''archived'' [grant_to_bob ''edit'' None] 100)) = Inr False
   \<and> unique_together (accesses (example_db ''restricted'' [] 100))
   \<and> visibility (report ''restricted'') = ''restricted''
   \<and> \<not> (\<exists>x \<in> set (accesses (example_db ''restricted'' [] 100)).
           file_id x = file_pk (report ''restricted'') \<and> user_id x = user_pk bob)
   \<and> fst (can_access_file bob (report ''restricted'') ''view''
            (example_db ''restricted'' [] 100)) = Inr False
   \<and> unique_together (accesses (example_db ''restricted'' [grant_to_bob ''edit'' (Some 99)] 100))
   \<and> (\<exists>a \<in> set (accesses (example_db ''restricted'' [grant_to_bob ''edit'' (Some 99)] 100)).
         file_id a = file_pk (report ''restricted'') \<and> user_id a = user_pk bob
         \<and> (\<exists>t. expires_at a = Some t
               \<and> t < clock (example_db ''restricted'' [grant_to_bob ''edit'' (Some 99)] 100)))
   \<and> fst (can_access_file bob (report ''restricted'') ''view''
            (example_db ''restricted'' [grant_to_bob ''edit'' (Some 99)] 100)) = Inr False"
  using can_access_file_never_raises [of "example_db ''archived'' [grant_to_bob ''edit'' None] 100"
      bob "report ''archived''" "''view''"]
    can_access_file_never_raises [of "example_db ''restricted'' [] 100"
      bob "report ''restricted''" "''view''"]
    can_access_file_never_raises [of "example_db ''restricted'' [grant_to_bob ''edit'' (Some 99)] 100"
      bob "report ''restricted''" "''view''"]
  by (simp add: report_def bob_def example_db_def grant_to_bob_def unique_together_def
      VISIBILITY_CHOICES_def)

text \<open>
  C8. The decision is a function of the principal's key, the file's key, owner
  and visibility, the operation, the grant table and the clock: two database
  states that agree on the grant table and the clock give the same answer.
  The call leaves the database as it found it.
\<close>

theorem can_access_file_pure:
  assumes "accesses s = accesses s'" and "clock s = clock s'"
    and "user_pk u = user_pk u'"
    and "file_pk f = file_pk f'" and "owner_id f = owner_id f'" and "visibility f = visibility f'"
  shows "fst (can_access_file u f p s) = fst (can_access_file u' f' p s')
       \<and> snd (can_access_file u f p s) = s"
  using can_access_file_reads [OF assms] can_access_file_state by simp

theorem can_access_file_pure_witness:
  "accesses (example_db ''restricted'' [grant_to_bob ''download'' None] 100)
     = accesses ((example_db ''restricted'' [grant_to_bob ''download'' None] 100)
                   \<lparr>users := [bob], files := [], access_seq := 9\<rparr>)
   \<and> clock (example_db ''restricted'' [grant_to_bob ''download'' None] 100)
     = clock ((example_db ''restricted'' [grant_to_bob ''download'' None] 100)
                   \<lparr>users := [bob], files := [], access_seq := 9\<rparr>)
   \<and> user_pk bob = user_pk (bob\<lparr>email := ''robert@example.org''\<rparr>)
   \<and> file_pk (report ''restricted'') = file_pk ((report ''restricted'')\<lparr>name := ''draft'', download_count := 3\<rparr>)
   \<and> owner_id (report ''restricted'') = owner_id ((report ''restricted'')\<lparr>name := ''draft'', download_count := 3\<rparr>)
   \<and> visibility (report ''restricted'') = visibility ((report ''restricted'')\<lparr>name := ''draft'', download_count := 3\<rparr>)
   \<and> fst (can_access_file bob (report ''restricted'') ''download''
            (example_db ''restricted'' [grant_to_bob ''download'' None] 100))
     = fst (can_access_file (bob\<lparr>email := ''robert@example.org''\<rparr>)
            ((report ''restricted'')\<lparr>name := ''draft'', download_count := 3\<rparr>) ''download''
            ((example_db ''restricted'' [grant_to_bob ''download'' None] 100)
                   \<lparr>users := [bob], files := [], access_seq := 9\<rparr>))
   \<and> snd (can_access_file bob (report ''restricted'') ''download''
            (example_db ''restricted'' [grant_to_bob ''download'' None] 100))
     = example_db ''restricted'' [grant_to_bob ''download'' None] 100"
  using can_access_file_pure [of "example_db ''restricted'' [grant_to_bob ''download'' None] 100"
      "(example_db ''restricted'' [grant_to_bob ''download'' None] 100)
                   \<lparr>users := [bob], files := [], access_seq := 9\<rparr>"
      bob "bob\<lparr>email := ''robert@example.org''\<rparr>"
      "report ''restricted''" "(report ''restricted'')\<lparr>name := ''draft'', download_count := 3\<rparr>"
      "''download''"]
  by (simp add: report_def bob_def example_db_def grant_to_bob_def)

section \<open>Lemmas about the views\<close>



lemma get_object_or_404_none:
  "(\<forall>x \<in> set rows. \<not> P x) \<Longrightarrow> get_object_or_404 P rows = Inl Http404"
  by (simp add: get_object_or_404_def objects_get_none)

lemma FileActivity_objects_create_table_ok [simp]:
  "FileAccess_table_ok (FileActivity_objects_create fid uid act s) = FileAccess_table_ok s"
  by (simp add: FileAccess_table_ok_def FileActivity_objects_create_def)

lemma FileActivity_objects_create_accesses [simp]:
  "accesses (FileActivity_objects_create fid uid act s) = accesses s"
  by (simp add: FileActivity_objects_create_def)








lemma remove_access_table_ok:
  assumes ok: "FileAccess_table_ok s"
  shows "FileAccess_table_ok (snd (remove_access req aid s))"
  using ok
  by (auto simp: remove_access_def login_required_def require_POST_def FileAccess_table_ok_def
      unique_together_def distinct_map_filter split: option.splits sum.splits)

lemma FileAccess_table_ok_empty:
  "FileAccess_table_ok \<lparr>users = us, files = fs, accesses = [], activities = acts,
     access_seq = n, clock = t\<rparr>"
  by (simp add: FileAccess_table_ok_def unique_together_def)


lemmas example_defs = report_def alice_def bob_def example_db_def grant_to_bob_def
  example_parse_def share_request_def edit_request_def example_clean_def


lemma share_file_example_new:
  "share_file example_parse share_request 7 (example_db ''restricted'' [] 100)
   = (Inr (JsonResponse True ''File shared''),
      (example_db ''restricted''
         [\<lparr>access_pk = 2, file_id = 7, user_id = 2, permission = ''edit'',
           granted_by_id = 1, granted_at = 100, expires_at = Some 2030\<rparr>] 100)
        \<lparr>activities := [\<lparr>activity_file = 7, activity_user = 1, action = ''share'',
                          activity_timestamp = 100\<rparr>],
         access_seq := 2\<rparr>)"
  by (simp add: share_file_def login_required_def get_object_or_404_def objects_get_def
      FileAccess_objects_get_or_create_def FileAccess_objects_create_def Let_def
      FileAccess_save_def DateTimeField_to_python_def
      posted_expires_at_def posted_permission_def FileActivity_objects_create_def
      example_defs)

lemma edit_file_example_owner:
  "edit_file example_clean (edit_request alice) 7 (example_db ''restricted'' [grant_to_bob ''edit'' None] 100)
   = (Inr (Redirect ''filemanager:view_file''),
      (example_db ''restricted'' [grant_to_bob ''edit'' None] 100)
        \<lparr>files := [(report ''public'')\<lparr>name := ''renamed'', updated_at := 100\<rparr>],
         activities := [\<lparr>activity_file = 7, activity_user = 1, action = ''update'',
                          activity_timestamp = 100\<rparr>]\<rparr>)"
  by (simp add: edit_file_def login_required_def get_object_or_404_def objects_get_def
      FileEditForm_save_def FileActivity_objects_create_def VISIBILITY_CHOICES_def
      example_defs)

section \<open>The claims about the views\<close>



text \<open>
  C10. The edit view looks the file up among the requester's own files. For an
  authenticated requester who does not own file \<open>fid\<close> it raises \<open>Http404\<close> and
  leaves the database unchanged, whatever the grant table holds; in the
  witness bob holds an active edit grant and the access decision allows him
  edit, yet the view answers not found.
\<close>

theorem edit_file_owner_only:
  assumes "req_user req = Some u"
    and "\<forall>f \<in> set (files s). file_pk f = fid \<longrightarrow> owner_id f \<noteq> user_pk u"
  shows "edit_file clean req fid s = (Inl Http404, s)"
proof -
  from assms(2) have "\<forall>f \<in> set (files s). \<not> (file_pk f = fid \<and> owner_id f = user_pk u)"
    by blast
  then have "get_object_or_404 (\<lambda>f. file_pk f = fid \<and> owner_id f = user_pk u) (files s) = Inl Http404"
    by (rule get_object_or_404_none)
  with assms(1) show ?thesis
    by (simp add: edit_file_def login_required_def)
qed

theorem edit_file_owner_only_witness:
  "req_user (edit_request bob) = Some bob
   \<and> \<not> (\<exists>f \<in> set (files (example_db ''restricted'' [grant_to_bob ''edit'' None] 100)).
           file_pk f = 7 \<and> owner_id f = user_pk bob)
   \<and> can_access_file bob (report ''restricted'') ''edit''
         (example_db ''restricted'' [grant_to_bob ''edit'' None] 100)
       = (Inr True, example_db ''restricted'' [grant_to_bob ''edit'' None] 100)
   \<and> edit_file example_clean (edit_request bob) 7
         (example_db ''restricted'' [grant_to_bob ''edit'' None] 100)
       = (Inl Http404, example_db ''restricted'' [grant_to_bob ''edit'' None] 100)"
  using edit_file_owner_only [of "edit_request bob" bob
      "example_db ''restricted'' [grant_to_bob ''edit'' None] 100" 7 example_clean]
  by (simp add: can_access_file_def FileAccess_objects_get_def objects_get_def
      access_has_expired_def check_permission_level_def
      report_def bob_def example_db_def grant_to_bob_def edit_request_def)

end
